theory Spec2Isabelle
  imports Main "HOL-Library.Sublist"
begin

chapter \<open>The program\<close>

section \<open>Library functions the program calls\<close>

text \<open>
  Go strings are byte sequences; they are modelled as \<open>string\<close> (a list of 8-bit
  characters), so \<open>length\<close> is Go's \<open>len\<close>. The functions of this section are
  the parts of Go's standard library the program uses, written after the library's
  documented behaviour.
\<close>

subsection \<open>Package strings\<close>

definition strings_HasPrefix :: "string \<Rightarrow> string \<Rightarrow> bool" where
  "strings_HasPrefix s pre = (take (length pre) s = pre)"

text \<open>\<open>strings.Index\<close>: the byte offset of the first instance of \<open>substr\<close>, Go's -1
  being \<open>None\<close>.\<close>

fun strings_Index :: "string \<Rightarrow> string \<Rightarrow> nat option" where
  "strings_Index [] substr = (if substr = [] then Some 0 else None)"
| "strings_Index (c # s) substr =
     (if strings_HasPrefix (c # s) substr then Some 0
      else map_option Suc (strings_Index s substr))"

definition strings_Contains :: "string \<Rightarrow> string \<Rightarrow> bool" where
  "strings_Contains s substr = (strings_Index s substr \<noteq> None)"

text \<open>
  \<open>utf8.RuneCountInString\<close>, needed because \<open>strings.Count(s, "")\<close> is one more than
  the number of runes of \<open>s\<close>. \<open>utf8_first\<close> is the library's table \<open>first\<close>: for a
  leading byte of a multi-byte encoding, the length of the encoding and the range its
  second byte must lie in. An invalid or truncated encoding counts as one rune of width 1.
\<close>

definition utf8_first :: "nat \<Rightarrow> (nat \<times> nat \<times> nat) option" where
  "utf8_first c =
     (if 0xC2 \<le> c \<and> c \<le> 0xDF then Some (2, 0x80, 0xBF)
      else if c = 0xE0 then Some (3, 0xA0, 0xBF)
      else if 0xE1 \<le> c \<and> c \<le> 0xEC then Some (3, 0x80, 0xBF)
      else if c = 0xED then Some (3, 0x80, 0x9F)
      else if 0xEE \<le> c \<and> c \<le> 0xEF then Some (3, 0x80, 0xBF)
      else if c = 0xF0 then Some (4, 0x90, 0xBF)
      else if 0xF1 \<le> c \<and> c \<le> 0xF3 then Some (4, 0x80, 0xBF)
      else if c = 0xF4 then Some (4, 0x80, 0x8F)
      else None)"

definition continuation_byte :: "char \<Rightarrow> bool" where
  "continuation_byte c = (0x80 \<le> (of_char c :: nat) \<and> (of_char c :: nat) \<le> 0xBF)"

definition utf8_rune_width :: "string \<Rightarrow> nat" where
  "utf8_rune_width s =
     (case s of
        [] \<Rightarrow> 0
      | c # cs \<Rightarrow>
          (case utf8_first (of_char c) of
             None \<Rightarrow> 1
           | Some (w, lo, hi) \<Rightarrow>
               if length s < w then 1
               else if (of_char (cs ! 0) :: nat) < lo \<or> hi < (of_char (cs ! 0) :: nat) then 1
               else if w = 2 then 2
               else if \<not> continuation_byte (cs ! 1) then 1
               else if w = 3 then 3
               else if \<not> continuation_byte (cs ! 2) then 1
               else 4))"

fun utf8_RuneCountInString :: "string \<Rightarrow> nat" where
  "utf8_RuneCountInString [] = 0"
| "utf8_RuneCountInString (c # cs) =
     Suc (utf8_RuneCountInString (drop (utf8_rune_width (c # cs) - 1) cs))"

text \<open>
  \<open>strings.Count\<close> counts non-overlapping instances of \<open>substr\<close>: it looks for the
  first instance with \<open>Index\<close>, counts it and goes on behind it. \<open>count_loop\<close> is
  that loop (the library's special case for a one-byte \<open>substr\<close> gives the same
  number).
\<close>

function count_loop :: "string \<Rightarrow> string \<Rightarrow> nat \<Rightarrow> nat" where
  "count_loop s substr n =
     (if substr = [] then n
      else case strings_Index s substr of
             None \<Rightarrow> n
           | Some i \<Rightarrow> count_loop (drop (i + length substr) s) substr (Suc n))"
  by pat_completeness auto
termination
proof -
  have bound: "i + length substr \<le> length s"
    if "strings_Index s substr = Some i" for s substr i
    using that
  proof (induction s arbitrary: i)
    case Nil
    then show ?case by (simp split: if_splits)
  next
    case (Cons c s)
    show ?case
    proof (cases "strings_HasPrefix (c # s) substr")
      case True
      then have "length (take (length substr) (c # s)) = length substr"
        unfolding strings_HasPrefix_def by simp
      then have "length substr \<le> length (c # s)"
        by simp
      with True Cons.prems show ?thesis by simp
    next
      case False
      with Cons.prems obtain j where "strings_Index s substr = Some j" "i = Suc j"
        by auto
      with Cons.IH show ?thesis by fastforce
    qed
  qed
  show ?thesis
  proof (relation "measure (\<lambda>(s, substr, n). length s)")
    show "wf (measure (\<lambda>(s, substr, n). length s))" by simp
  next
    fix s substr :: string and n i :: nat
    assume ne: "substr \<noteq> []" and idx: "strings_Index s substr = Some i"
    have "i + length substr \<le> length s"
      by (rule bound [OF idx])
    moreover from ne have "0 < length substr"
      by simp
    ultimately have "length s - (i + length substr) < length s"
      by linarith
    then show "((drop (i + length substr) s, substr, Suc n), (s, substr, n))
        \<in> measure (\<lambda>(s, substr, n). length s)"
      by simp
  qed
qed

declare count_loop.simps [simp del]

definition strings_Count :: "string \<Rightarrow> string \<Rightarrow> nat" where
  "strings_Count s substr =
     (if substr = [] then Suc (utf8_RuneCountInString s) else count_loop s substr 0)"

text \<open>
  \<open>strings.Replace(s, old, new, 1)\<close>, the only way the program calls \<open>Replace\<close>:
  the string itself when \<open>old = new\<close> or \<open>old\<close> does not occur, and otherwise the
  first instance of \<open>old\<close> replaced (for an empty \<open>old\<close> that is offset 0, which is
  what \<open>strings_Index\<close> answers).
\<close>

definition strings_Replace1 :: "string \<Rightarrow> string \<Rightarrow> string \<Rightarrow> string" where
  "strings_Replace1 s old new =
     (if old = new then s
      else if strings_Count s old = 0 then s
      else case strings_Index s old of
             None \<Rightarrow> s
           | Some j \<Rightarrow> take j s @ new @ drop (j + length old) s)"

subsection \<open>The file system, packages os and filepath\<close>

text \<open>
  The file system is a finite map from path strings to nodes. A path is looked up as the
  string it is (two spellings of one file are two keys), the empty path names nothing,
  and permissions are not modelled: an operation fails because the node is missing or
  of the wrong kind. \<open>MkdirAll\<close> records the directory it is asked for, not its
  ancestors.
\<close>

datatype node = File string | Dir

type_synonym filesystem = "string \<rightharpoonup> node"

datatype os_error = ENOENT | EISDIR | ENOTDIR

record FileInfo =
  Size :: nat
  IsDir :: bool

definition lookup :: "filesystem \<Rightarrow> string \<Rightarrow> node option" where
  "lookup fs p = (if p = [] then None else fs p)"

text \<open>The size \<open>Stat\<close> reports for a directory depends on the system; the model
  reports 0.\<close>

definition os_Stat :: "filesystem \<Rightarrow> string \<Rightarrow> os_error + FileInfo" where
  "os_Stat fs p =
     (case lookup fs p of
        None \<Rightarrow> Inl ENOENT
      | Some (File c) \<Rightarrow> Inr \<lparr>Size = length c, IsDir = False\<rparr>
      | Some Dir \<Rightarrow> Inr \<lparr>Size = 0, IsDir = True\<rparr>)"

definition os_ReadFile :: "filesystem \<Rightarrow> string \<Rightarrow> os_error + string" where
  "os_ReadFile fs p =
     (case lookup fs p of
        None \<Rightarrow> Inl ENOENT
      | Some (File c) \<Rightarrow> Inr c
      | Some Dir \<Rightarrow> Inl EISDIR)"

definition os_WriteFile :: "filesystem \<Rightarrow> string \<Rightarrow> string \<Rightarrow> os_error option \<times> filesystem" where
  "os_WriteFile fs p c =
     (if p = [] then (Some ENOENT, fs)
      else case fs p of
             Some Dir \<Rightarrow> (Some EISDIR, fs)
           | _ \<Rightarrow> (None, fs(p \<mapsto> File c)))"

definition os_MkdirAll :: "filesystem \<Rightarrow> string \<Rightarrow> os_error option \<times> filesystem" where
  "os_MkdirAll fs d =
     (if d = [] then (Some ENOENT, fs)
      else case fs d of
             Some (File c) \<Rightarrow> (Some ENOTDIR, fs)
           | Some Dir \<Rightarrow> (None, fs)
           | None \<Rightarrow> (None, fs(d \<mapsto> Dir)))"

text \<open>
  \<open>filepath.Dir\<close>: the path without its last element and without the separators
  before it; \<open>"."\<close> when nothing is left and \<open>"/"\<close> when only separators are. (The
  library also cleans the result, which the model leaves out.)
\<close>

definition filepath_Dir :: "string \<Rightarrow> string" where
  "filepath_Dir p =
     (let d = rev (dropWhile (\<lambda>c. c \<noteq> CHR ''/'') (rev p));
          d' = rev (dropWhile (\<lambda>c. c = CHR ''/'') (rev d))
      in if d = [] then ''.'' else if d' = [] then ''/'' else d')"

section \<open>File mutation primitives\<close>

text \<open>
  Every \<open>errors.New\<close> and \<open>fmt.Errorf\<close> of the file operations is a constructor of
  \<open>error\<close>, carrying what the format string is filled with; a wrapped error
  (\<open>%w\<close>) is the constructor's last argument. What the functions print to the
  terminal is left out.
\<close>

datatype error =
    TestError
  | OsError os_error
  | ReadLocalFileError error
  | FailedToStat string error
  | ExceedsSizeLimit string nat
  | IsADirectory string
  | FailedToRead string error
  | CreateOrOverwriteFileError error
  | ContentExceedsSizeLimit string nat
  | FailedToCreateParents string error
  | FailedToWrite string error
  | ApplyDiffEditError error
  | FailedToReadForEditing string error
  | SnippetNotFound string
  | AmbiguousEdit nat string
  | FailedToWriteUpdated string error
  | IsBinaryFileError error
  | FailedToOpen string error
  | FailedToReadFrom string error
  | AddDirectoryError error
  | ErrorWalking string error

definition maxFileSize :: nat where
  "maxFileSize = 5 * 1024 * 1024"

definition normalizePath :: "string \<Rightarrow> error + string" where
  "normalizePath pathStr = (if pathStr = ''error'' then Inl TestError else Inr pathStr)"

definition readLocalFile :: "filesystem \<Rightarrow> string \<Rightarrow> error + string" where
  "readLocalFile fs filePath =
     (case normalizePath filePath of
        Inl err \<Rightarrow> Inl (ReadLocalFileError err)
      | Inr normalizedPath \<Rightarrow>
          (case os_Stat fs normalizedPath of
             Inl err \<Rightarrow> Inl (FailedToStat normalizedPath (OsError err))
           | Inr fileInfo \<Rightarrow>
               if Size fileInfo > maxFileSize then Inl (ExceedsSizeLimit normalizedPath maxFileSize)
               else if IsDir fileInfo then Inl (IsADirectory normalizedPath)
               else (case os_ReadFile fs normalizedPath of
                       Inl err \<Rightarrow> Inl (FailedToRead normalizedPath (OsError err))
                     | Inr content \<Rightarrow> Inr content)))"

text \<open>The mutating operations return Go's \<open>error\<close> result (\<open>None\<close> is \<open>nil\<close>)
  together with the file system they leave behind.\<close>

definition createOrOverwriteFile :: "filesystem \<Rightarrow> string \<Rightarrow> string \<Rightarrow> error option \<times> filesystem" where
  "createOrOverwriteFile fs path content =
     (case normalizePath path of
        Inl err \<Rightarrow> (Some (CreateOrOverwriteFileError err), fs)
      | Inr normalizedPath \<Rightarrow>
          if length content > maxFileSize
          then (Some (ContentExceedsSizeLimit normalizedPath maxFileSize), fs)
          else (case os_MkdirAll fs (filepath_Dir normalizedPath) of
                  (Some err, fs') \<Rightarrow> (Some (FailedToCreateParents normalizedPath (OsError err)), fs')
                | (None, fs') \<Rightarrow>
                    (case os_WriteFile fs' normalizedPath content of
                       (Some err, fs'') \<Rightarrow> (Some (FailedToWrite normalizedPath (OsError err)), fs'')
                     | (None, fs'') \<Rightarrow> (None, fs''))))"

definition applyDiffEdit :: "filesystem \<Rightarrow> string \<Rightarrow> string \<Rightarrow> string \<Rightarrow> error option \<times> filesystem" where
  "applyDiffEdit fs path originalSnippet newSnippet =
     (case normalizePath path of
        Inl err \<Rightarrow> (Some (ApplyDiffEditError err), fs)
      | Inr normalizedPath \<Rightarrow>
          (case os_ReadFile fs normalizedPath of
             Inl err \<Rightarrow> (Some (FailedToReadForEditing normalizedPath (OsError err)), fs)
           | Inr content \<Rightarrow>
               (let count = strings_Count content originalSnippet in
                if count = 0 then (Some (SnippetNotFound normalizedPath), fs)
                else if count > 1 then (Some (AmbiguousEdit count normalizedPath), fs)
                else (let updatedContent = strings_Replace1 content originalSnippet newSnippet in
                      case createOrOverwriteFile fs normalizedPath updatedContent of
                        (Some err, fs') \<Rightarrow> (Some (FailedToWriteUpdated normalizedPath err), fs')
                      | (None, fs') \<Rightarrow> (None, fs')))))"

text \<open>
  \<open>isBinaryFile\<close> opens the file and reads up to 1024 bytes into a buffer. Opening a
  directory succeeds and reading from it fails; a regular file yields its first 1024
  bytes (fewer at the end of the file, where \<open>EOF\<close> is allowed).
\<close>

definition isBinaryFile :: "filesystem \<Rightarrow> string \<Rightarrow> error + bool" where
  "isBinaryFile fs filePath =
     (case normalizePath filePath of
        Inl err \<Rightarrow> Inl (IsBinaryFileError err)
      | Inr normalizedPath \<Rightarrow>
          (case lookup fs normalizedPath of
             None \<Rightarrow> Inl (FailedToOpen normalizedPath (OsError ENOENT))
           | Some Dir \<Rightarrow> Inl (FailedToReadFrom normalizedPath (OsError EISDIR))
           | Some (File c) \<Rightarrow> Inr (CHR 0x00 \<in> set (take 1024 c))))"

text \<open>
  The instances of a snippet in a content, as the specification counts them: every
  offset at which the snippet stands as an exact substring, overlapping or not.
\<close>

definition occurrences :: "string \<Rightarrow> string \<Rightarrow> nat list" where
  "occurrences s substr =
     filter (\<lambda>i. strings_HasPrefix (drop i s) substr) [0..<Suc (length s)]"

section \<open>Conversation history\<close>

text \<open>
  The records are those of the chat client library the program is written against. A
  streamed tool-call fragment and an aggregated tool call are the same Go type,
  \<open>ToolCall\<close>; \<open>Index\<close> is a pointer there, \<open>None\<close> being \<open>nil\<close>. The field
  \<open>Name\<close> of a message is called \<open>ToolName\<close> here, since a function call has a
  \<open>Name\<close> too.
\<close>

record FunctionCall =
  Name :: string
  Arguments :: string

record ToolCall =
  Index :: "int option"
  ID :: string
  Type :: string
  Function :: FunctionCall

text \<open>
  What the program puts into the content of a tool-result message is one of eight
  \<open>Sprintf\<close> texts; each is a constructor of \<open>tool_result\<close> carrying the values the
  format is filled with. \<open>json_error\<close> is an error of \<open>json.Unmarshal\<close>.
\<close>

datatype json_error = SyntaxError | UnmarshalTypeError

datatype tool_result =
    ContentOfFile string string
  | ErrorReadingFile string error
  | SuccessfullyCreated string
  | ErrorCreatingFile string error
  | SuccessfullyEdited string
  | ErrorEditingFile string error
  | ErrorParsingArgs string json_error
  | Placeholder string

datatype content = Text string | ToolResult tool_result

record ChatCompletionMessage =
  Role :: string
  Content :: content
  ToolName :: string
  ToolCalls :: "ToolCall list"
  ToolCallID :: string

definition ChatMessageRoleSystem :: string where "ChatMessageRoleSystem = ''system''"
definition ChatMessageRoleUser :: string where "ChatMessageRoleUser = ''user''"
definition ChatMessageRoleAssistant :: string where "ChatMessageRoleAssistant = ''assistant''"
definition ChatMessageRoleTool :: string where "ChatMessageRoleTool = ''tool''"

text \<open>
  \<open>ConversationHistory\<close> is a global slice. A \<open>nil\<close> slice and an empty one are both
  the empty list: every history the program builds that is not \<open>nil\<close> has a message.
\<close>

type_synonym history = "ChatCompletionMessage list"

definition maxMessagesToKeep :: nat where "maxMessagesToKeep = 15"
definition minMessagesToTrim :: nat where "minMessagesToTrim = 20"

text \<open>The first loop of \<open>trimConversationHistory\<close>, with the two slices it appends to.\<close>

fun splitMessages :: "history \<Rightarrow> history \<Rightarrow> history \<Rightarrow> history \<times> history" where
  "splitMessages [] systemMessages otherMessages = (systemMessages, otherMessages)"
| "splitMessages (msg # rest) systemMessages otherMessages =
     (if Role msg = ChatMessageRoleSystem
      then splitMessages rest (systemMessages @ [msg]) otherMessages
      else splitMessages rest systemMessages (otherMessages @ [msg]))"

definition trimConversationHistory :: "history \<Rightarrow> history" where
  "trimConversationHistory h =
     (case splitMessages h [] [] of
        (systemMessages, otherMessages) \<Rightarrow>
          if length otherMessages \<le> minMessagesToTrim then h
          else (let startIdx = int (length otherMessages) - int maxMessagesToKeep;
                    startIdx = (if startIdx < 0 then 0 else startIdx)
                in systemMessages @ drop (nat startIdx) otherMessages))"

section \<open>Streaming response aggregator\<close>

text \<open>
  The loop that makes the slice of tool calls long enough for \<open>idx\<close>, and the merge
  of one fragment into it. Indexing the slice with a negative \<open>idx\<close> is a run-time
  panic in Go.
\<close>

datatype panic = IndexOutOfRange int nat | SliceBoundsOutOfRange nat nat

definition emptyToolCall :: ToolCall where
  "emptyToolCall =
     \<lparr>Index = None, ID = [], Type = [], Function = \<lparr>Name = [], Arguments = []\<rparr>\<rparr>"

function growToolCalls :: "ToolCall list \<Rightarrow> int \<Rightarrow> ToolCall list" where
  "growToolCalls toolCalls idx =
     (if int (length toolCalls) \<le> idx then growToolCalls (toolCalls @ [emptyToolCall]) idx
      else toolCalls)"
  by pat_completeness auto
termination
  by (relation "measure (\<lambda>(toolCalls, idx). nat (idx + 1 - int (length toolCalls)))") auto

declare growToolCalls.simps [simp del]

text \<open>The four assignments to \<open>toolCalls[idx]\<close>, on the element they change.\<close>

definition mergeFragment :: "ToolCall \<Rightarrow> ToolCall \<Rightarrow> ToolCall" where
  "mergeFragment tc tcDelta =
     (let tc = tc\<lparr>ID := ID tc @ ID tcDelta\<rparr>;
          tc = tc\<lparr>Type := Type tcDelta\<rparr>;
          tc = (if Name (Function tc) = []
                then tc\<lparr>Function := (Function tc)\<lparr>Name := Name (Function tcDelta)\<rparr>\<rparr>
                else tc)
      in tc\<lparr>Function := (Function tc)\<lparr>Arguments :=
              Arguments (Function tc) @ Arguments (Function tcDelta)\<rparr>\<rparr>)"

definition mergeToolCallDelta :: "ToolCall list \<Rightarrow> ToolCall \<Rightarrow> panic + ToolCall list" where
  "mergeToolCallDelta toolCalls tcDelta =
     (case Index tcDelta of
        None \<Rightarrow> Inr toolCalls
      | Some idx \<Rightarrow>
          (let toolCalls = growToolCalls toolCalls idx in
           if idx < 0 then Inl (IndexOutOfRange idx (length toolCalls))
           else Inr (toolCalls[nat idx := mergeFragment (toolCalls ! nat idx) tcDelta])))"

fun accumulateToolCalls :: "ToolCall list \<Rightarrow> ToolCall list \<Rightarrow> panic + ToolCall list" where
  "accumulateToolCalls toolCalls [] = Inr toolCalls"
| "accumulateToolCalls toolCalls (tcDelta # rest) =
     (case mergeToolCallDelta toolCalls tcDelta of
        Inl p \<Rightarrow> Inl p
      | Inr toolCalls' \<Rightarrow> accumulateToolCalls toolCalls' rest)"













section \<open>Incremental text formatter\<close>

text \<open>
  More of package strings. White space is the ASCII white space (tab, line feed,
  vertical tab, form feed, carriage return, space); the multi-byte Unicode spaces the
  library also knows are taken as ordinary text. \<open>strings_Split\<close> is
  \<open>strings.Split\<close> for a one-byte separator, the only way the program calls it.
\<close>

definition isSpace :: "char \<Rightarrow> bool" where
  "isSpace c = (c \<in> {CHR 0x09, CHR 0x0A, CHR 0x0B, CHR 0x0C, CHR 0x0D, CHR '' ''})"


definition strings_TrimSpace :: "string \<Rightarrow> string" where
  "strings_TrimSpace s = rev (dropWhile isSpace (rev (dropWhile isSpace s)))"

definition strings_TrimPrefix :: "string \<Rightarrow> string \<Rightarrow> string" where
  "strings_TrimPrefix s pre = (if strings_HasPrefix s pre then drop (length pre) s else s)"

definition strings_TrimLeft :: "string \<Rightarrow> string \<Rightarrow> string" where
  "strings_TrimLeft s cutset = dropWhile (\<lambda>c. c \<in> set cutset) s"

definition strings_ContainsAny :: "string \<Rightarrow> string \<Rightarrow> bool" where
  "strings_ContainsAny s chars = (\<exists>c \<in> set s. c \<in> set chars)"

fun strings_Split :: "string \<Rightarrow> char \<Rightarrow> string list" where
  "strings_Split [] sep = [[]]"
| "strings_Split (c # s) sep =
     (if c = sep then [] # strings_Split s sep
      else case strings_Split s sep of
             [] \<Rightarrow> [[c]]
           | l # ls \<Rightarrow> (c # l) # ls)"

text \<open>\<open>strings.Fields\<close>: the maximal runs of characters that are not white space.
  \<open>fields_loop\<close> carries the field being read.\<close>

fun fields_loop :: "string \<Rightarrow> string \<Rightarrow> string list" where
  "fields_loop [] cur = (if cur = [] then [] else [cur])"
| "fields_loop (c # s) cur =
     (if isSpace c then (if cur = [] then fields_loop s [] else cur # fields_loop s [])
      else fields_loop s (cur @ [c]))"

definition strings_Fields :: "string \<Rightarrow> string list" where
  "strings_Fields s = fields_loop s []"

fun strings_Join :: "string list \<Rightarrow> string \<Rightarrow> string" where
  "strings_Join [] sep = []"
| "strings_Join [a] sep = a"
| "strings_Join (a # b # rest) sep = a @ sep @ strings_Join (b # rest) sep"

text \<open>
  The formatter's state, and what it prints: every \<open>Println\<close> of the formatter is a
  constructor of \<open>rendered\<close> carrying the texts the line is made of (the colours are
  left out).
\<close>

record MatrixTextStreamFormatter =
  buffer :: string
  inCodeBlock :: bool
  codeLanguage :: string

datatype rendered =
    CodeHeader string
  | CodeFooter
  | CodeLine string
  | BulletItem string
  | NumberedItem string string
  | PlainText string
  | BlankLine

definition NewMatrixTextStreamFormatter :: MatrixTextStreamFormatter where
  "NewMatrixTextStreamFormatter = \<lparr>buffer = [], inCodeBlock = False, codeLanguage = []\<rparr>"

text \<open>
  \<open>formatAndPrintLine\<close> returns the formatter and the line it printed. The slice
  \<open>trimmedLine[:2]\<close> is a run-time panic when the trimmed line has one byte; Go
  evaluates \<open>&&\<close> from left to right, so the slice is taken whenever the trimmed line
  is not empty.
\<close>

definition formatAndPrintLine ::
  "MatrixTextStreamFormatter \<Rightarrow> string \<Rightarrow> panic + MatrixTextStreamFormatter \<times> rendered" where
  "formatAndPrintLine f line =
     (let trimmedLine = strings_TrimSpace line in
      if strings_HasPrefix trimmedLine ''```'' then
        (if \<not> inCodeBlock f then
           (let lang = strings_TrimSpace (strings_TrimPrefix trimmedLine ''```'');
                lang = (if lang = [] then ''text'' else lang)
            in Inr (f\<lparr>inCodeBlock := True, codeLanguage := lang\<rparr>, CodeHeader lang))
         else Inr (f\<lparr>inCodeBlock := False\<rparr>, CodeFooter))
      else if inCodeBlock f then Inr (f, CodeLine line)
      else if strings_HasPrefix trimmedLine ''* '' \<or> strings_HasPrefix trimmedLine ''- ''
        then Inr (f, BulletItem (strings_TrimSpace (drop 2 trimmedLine)))
      else if length trimmedLine > 0 \<and> length trimmedLine < 2
        then Inl (SliceBoundsOutOfRange 2 (length trimmedLine))
      else if length trimmedLine > 0
              \<and> strings_ContainsAny (take 2 trimmedLine) ''0123456789''
              \<and> strings_HasPrefix (strings_TrimLeft trimmedLine ''0123456789. '') []
              \<and> (strings_Contains trimmedLine ''. '' \<or> strings_Contains trimmedLine '') '')
        then (case strings_Fields trimmedLine of
                numPart # rest \<Rightarrow>
                  Inr (f, NumberedItem numPart (strings_TrimSpace (strings_Join rest '' '')))
              | [] \<Rightarrow> Inr (f, PlainText trimmedLine))
      else if trimmedLine \<noteq> [] then Inr (f, PlainText trimmedLine)
      else Inr (f, BlankLine))"

text \<open>The loop of \<open>ProcessChunk\<close> over the complete lines, collecting what is printed.\<close>

fun formatLines ::
  "MatrixTextStreamFormatter \<Rightarrow> string list \<Rightarrow> panic + MatrixTextStreamFormatter \<times> rendered list" where
  "formatLines f [] = Inr (f, [])"
| "formatLines f (line # rest) =
     (case formatAndPrintLine f line of
        Inl p \<Rightarrow> Inl p
      | Inr (f', out) \<Rightarrow>
          (case formatLines f' rest of
             Inl p \<Rightarrow> Inl p
           | Inr (f'', outs) \<Rightarrow> Inr (f'', out # outs)))"

definition ProcessChunk ::
  "MatrixTextStreamFormatter \<Rightarrow> string \<Rightarrow> panic + MatrixTextStreamFormatter \<times> rendered list" where
  "ProcessChunk f chunk =
     (let lines = strings_Split (buffer f @ chunk) CHR 0x0A in
      case formatLines (f\<lparr>buffer := buffer f @ chunk\<rparr>) (butlast lines) of
        Inl p \<Rightarrow> Inl p
      | Inr (f', outs) \<Rightarrow> Inr (f'\<lparr>buffer := last lines\<rparr>, outs))"

definition Finalize ::
  "MatrixTextStreamFormatter \<Rightarrow> panic + MatrixTextStreamFormatter \<times> rendered list" where
  "Finalize f =
     (case (if buffer f \<noteq> []
            then (case formatAndPrintLine f (buffer f) of
                    Inl p \<Rightarrow> Inl p
                  | Inr (f', out) \<Rightarrow> Inr (f'\<lparr>buffer := []\<rparr>, [out]))
            else Inr (f, [])) of
        Inl p \<Rightarrow> Inl p
      | Inr (f', outs) \<Rightarrow>
          if inCodeBlock f' then Inr (f'\<lparr>inCodeBlock := False\<rparr>, outs @ [CodeFooter])
          else Inr (f', outs))"


section \<open>Tool orchestration\<close>

subsection \<open>Decoding tool arguments\<close>

text \<open>
  \<open>json.Unmarshal\<close> into a struct whose fields are strings. Parsing the text is left
  to a parameter \<open>parse\<close> (\<open>None\<close> for a syntax error); what the decoder does with the
  parsed value is modelled: \<open>null\<close> leaves the struct as it is, a value that is not an
  object is a type error, and in an object each key that names a field (the field's tag,
  compared without regard to the case of ASCII letters) sets that field, where a
  \<open>null\<close> value changes nothing and a value that is not a string is a type error that
  does not stop the decoding. Keys that name no field are ignored. The values decoded
  are returned by tag.
\<close>

datatype json =
    JNull
  | JBool bool
  | JNumber string
  | JString string
  | JArray "json list"
  | JObject "(string \<times> json) list"

type_synonym json_parser = "string \<Rightarrow> json option"

definition ascii_lower :: "char \<Rightarrow> char" where
  "ascii_lower c =
     (if 0x41 \<le> (of_char c :: nat) \<and> (of_char c :: nat) \<le> 0x5A
      then char_of ((of_char c :: nat) + 0x20) else c)"

definition strings_ToLower :: "string \<Rightarrow> string" where
  "strings_ToLower s = map ascii_lower s"

definition findField :: "string list \<Rightarrow> string \<Rightarrow> string option" where
  "findField tags key =
     (if key \<in> set tags then Some key
      else find (\<lambda>tag. strings_ToLower tag = strings_ToLower key) tags)"

fun decodeObject ::
  "string list \<Rightarrow> (string \<times> json) list \<Rightarrow> (string \<Rightarrow> string) \<Rightarrow> json_error option \<Rightarrow>
   (string \<Rightarrow> string) \<times> json_error option" where
  "decodeObject tags [] decoded err = (decoded, err)"
| "decodeObject tags ((key, v) # rest) decoded err =
     (case findField tags key of
        None \<Rightarrow> decodeObject tags rest decoded err
      | Some tag \<Rightarrow>
          (case v of
             JString s \<Rightarrow> decodeObject tags rest (decoded(tag := s)) err
           | JNull \<Rightarrow> decodeObject tags rest decoded err
           | _ \<Rightarrow> decodeObject tags rest decoded
                   (case err of None \<Rightarrow> Some UnmarshalTypeError | Some e \<Rightarrow> Some e)))"

definition json_Unmarshal :: "json_parser \<Rightarrow> string list \<Rightarrow> string \<Rightarrow> json_error + (string \<Rightarrow> string)" where
  "json_Unmarshal parse tags text =
     (case parse text of
        None \<Rightarrow> Inl SyntaxError
      | Some JNull \<Rightarrow> Inr (\<lambda>tag. [])
      | Some (JObject members) \<Rightarrow>
          (case decodeObject tags members (\<lambda>tag. []) None of
             (decoded, None) \<Rightarrow> Inr decoded
           | (decoded, Some e) \<Rightarrow> Inl e)
      | Some _ \<Rightarrow> Inl UnmarshalTypeError)"

text \<open>The three argument structs with their \<open>json\<close> tags.\<close>

record ReadFileArgs =
  FilePath :: string

record FileToCreate =
  CreatePath :: string
  CreateContent :: string

record FileToEdit =
  EditPath :: string
  OriginalSnippet :: string
  NewSnippet :: string

definition unmarshalReadFileArgs :: "json_parser \<Rightarrow> string \<Rightarrow> json_error + ReadFileArgs" where
  "unmarshalReadFileArgs parse text =
     (case json_Unmarshal parse [''file_path''] text of
        Inl e \<Rightarrow> Inl e
      | Inr decoded \<Rightarrow> Inr \<lparr>FilePath = decoded ''file_path''\<rparr>)"

definition unmarshalFileToCreate :: "json_parser \<Rightarrow> string \<Rightarrow> json_error + FileToCreate" where
  "unmarshalFileToCreate parse text =
     (case json_Unmarshal parse [''path'', ''content''] text of
        Inl e \<Rightarrow> Inl e
      | Inr decoded \<Rightarrow> Inr \<lparr>CreatePath = decoded ''path'', CreateContent = decoded ''content''\<rparr>)"

definition unmarshalFileToEdit :: "json_parser \<Rightarrow> string \<Rightarrow> json_error + FileToEdit" where
  "unmarshalFileToEdit parse text =
     (case json_Unmarshal parse [''path'', ''original_snippet'', ''new_snippet''] text of
        Inl e \<Rightarrow> Inl e
      | Inr decoded \<Rightarrow>
          Inr \<lparr>EditPath = decoded ''path'', OriginalSnippet = decoded ''original_snippet'',
               NewSnippet = decoded ''new_snippet''\<rparr>)"

subsection \<open>Executing the tool calls\<close>

text \<open>The names of the tools the program offers to the model (\<open>tools\<close>).\<close>

definition tools :: "string list" where
  "tools = [''read_file'', ''read_multiple_files'', ''create_file'', ''create_multiple_files'',
            ''edit_file'']"

text \<open>The \<open>switch\<close> on the name of one tool call: the content of the tool result and
  the file system afterwards.\<close>

definition executeToolCall :: "json_parser \<Rightarrow> filesystem \<Rightarrow> ToolCall \<Rightarrow> tool_result \<times> filesystem" where
  "executeToolCall parse fs tc =
     (if Name (Function tc) = ''read_file'' then
        (case unmarshalReadFileArgs parse (Arguments (Function tc)) of
           Inr args \<Rightarrow>
             (case unmarshalReadFileArgs parse (Arguments (Function tc)) of
                Inr argsRead \<Rightarrow>
                  (case readLocalFile fs (FilePath argsRead) of
                     Inl errRead \<Rightarrow> (ErrorReadingFile (FilePath argsRead) errRead, fs)
                   | Inr content \<Rightarrow> (ContentOfFile (FilePath argsRead) content, fs))
              | Inl err \<Rightarrow> (ErrorParsingArgs ''read_file'' err, fs))
         | Inl err \<Rightarrow> (ErrorParsingArgs ''read_file'' err, fs))
      else if Name (Function tc) = ''create_file'' then
        (case unmarshalFileToCreate parse (Arguments (Function tc)) of
           Inr args \<Rightarrow>
             (case unmarshalFileToCreate parse (Arguments (Function tc)) of
                Inr argsCreate \<Rightarrow>
                  (case createOrOverwriteFile fs (CreatePath argsCreate) (CreateContent argsCreate) of
                     (Some errCreate, fs') \<Rightarrow> (ErrorCreatingFile (CreatePath argsCreate) errCreate, fs')
                   | (None, fs') \<Rightarrow> (SuccessfullyCreated (CreatePath argsCreate), fs'))
              | Inl err \<Rightarrow> (ErrorParsingArgs ''create_file'' err, fs))
         | Inl err \<Rightarrow> (ErrorParsingArgs ''create_file'' err, fs))
      else if Name (Function tc) = ''edit_file'' then
        (case unmarshalFileToEdit parse (Arguments (Function tc)) of
           Inr argsEdit \<Rightarrow>
             (case applyDiffEdit fs (EditPath argsEdit) (OriginalSnippet argsEdit) (NewSnippet argsEdit) of
                (Some errEdit, fs') \<Rightarrow> (ErrorEditingFile (EditPath argsEdit) errEdit, fs')
              | (None, fs') \<Rightarrow> (SuccessfullyEdited (EditPath argsEdit), fs'))
         | Inl err \<Rightarrow> (ErrorParsingArgs ''edit_file'' err, fs))
      else (Placeholder (Name (Function tc)), fs))"

text \<open>The loop over the aggregated tool calls, appending one tool message per call.\<close>

fun executeToolCalls ::
  "json_parser \<Rightarrow> filesystem \<Rightarrow> ToolCall list \<Rightarrow> history \<Rightarrow> history \<times> filesystem" where
  "executeToolCalls parse fs [] toolResponses = (toolResponses, fs)"
| "executeToolCalls parse fs (tc # rest) toolResponses =
     (case executeToolCall parse fs tc of
        (toolResultContent, fs') \<Rightarrow>
          executeToolCalls parse fs' rest
            (toolResponses @
               [\<lparr>Role = ChatMessageRoleTool, Content = ToolResult toolResultContent,
                 ToolName = Name (Function tc), ToolCalls = [], ToolCallID = ID tc\<rparr>]))"

subsection \<open>One user turn\<close>

definition systemPrompt :: string where
  "systemPrompt =
      ''You are Neo, an elite hacker and software engineer operating within the Matrix.\<newline>'' @
      ''You see the code behind reality and can manipulate it at will.\<newline>'' @
      ''Your decades of experience span all programming domains and digital realities.\<newline>'' @
      ''\<newline>'' @
      ''Core capabilities:\<newline>'' @
      ''1. Code Analysis & Discussion\<newline>'' @
      ''   - Analyze code with expert-level insight\<newline>'' @
      ''   - Explain complex concepts clearly\<newline>'' @
      ''   - Suggest optimizations and best practices\<newline>'' @
      ''   - Debug issues with precision\<newline>'' @
      ''\<newline>'' @
      ''2. File Operations (via function calls):\<newline>'' @
      ''   - read_file: Read a single file's content\<newline>'' @
      ''   - read_multiple_files: Read multiple files at once\<newline>'' @
      ''   - create_file: Create or overwrite a single file\<newline>'' @
      ''   - create_multiple_files: Create multiple files at once\<newline>'' @
      ''   - edit_file: Make precise edits to existing files using snippet replacement\<newline>'' @
      ''\<newline>'' @
      ''Guidelines:\<newline>'' @
      ''1. Provide natural, conversational responses explaining your reasoning\<newline>'' @
      ''2. Use function calls when you need to read or modify files\<newline>'' @
      ''3. For file operations:\<newline>'' @
      ''   - Always read files first before editing them to understand the context\<newline>'' @
      ''   - Use precise snippet matching for edits\<newline>'' @
      ''   - Explain what changes you're making and why\<newline>'' @
      ''   - Consider the impact of changes on the overall codebase\<newline>'' @
      ''4. Follow language-specific best practices\<newline>'' @
      ''5. Suggest tests or validation steps when appropriate\<newline>'' @
      ''6. Be thorough in your analysis and recommendations\<newline>'' @
      ''\<newline>'' @
      ''IMPORTANT: In your thinking process, if you realize that something requires a tool call, cut your thinking short and proceed directly to the tool call. Don't overthink - act efficiently when file operations are needed.\<newline>'' @
      ''\<newline>'' @
      ''Remember: You're a senior engineer - be thoughtful, precise, and explain your reasoning clearly.''"

text \<open>
  The transport is a parameter. A request is answered with an error (the stream did
  not open) or with a stream: the responses \<open>Recv\<close> returns one after the other, and
  what ends them, the end-of-stream signal or a receive error. A response is the list of
  its choices, each the delta it carries.
\<close>

record ChatCompletionRequest =
  Model :: string
  Messages :: history
  Tools :: "string list"
  ToolChoice :: string
  Stream :: bool
  MaxTokens :: nat

record ChatCompletionStreamChoiceDelta =
  DeltaContent :: string
  DeltaToolCalls :: "ToolCall list"

type_synonym ChatCompletionStreamResponse = "ChatCompletionStreamChoiceDelta list"

datatype stream_end = EOF | RecvError string

type_synonym stream = "ChatCompletionStreamResponse list \<times> stream_end"

type_synonym client = "ChatCompletionRequest \<Rightarrow> string + stream"

text \<open>
  The receive loop of the first stream, over the responses received before the stream
  ends. The loop leaves by \<open>break\<close> on the end-of-stream signal and on a receive error
  alike, so the way the stream ends does not enter. A panic of the formatter or of
  the aggregator ends the program.
\<close>

fun receiveLoop ::
  "ChatCompletionStreamResponse list \<Rightarrow> MatrixTextStreamFormatter \<Rightarrow> string \<Rightarrow> ToolCall list \<Rightarrow>
   panic + MatrixTextStreamFormatter \<times> string \<times> ToolCall list" where
  "receiveLoop [] formatter fullResponse toolCalls = Inr (formatter, fullResponse, toolCalls)"
| "receiveLoop (response # rest) formatter fullResponse toolCalls =
     (case response of
        [] \<Rightarrow> receiveLoop rest formatter fullResponse toolCalls
      | choice # _ \<Rightarrow>
          (case (if DeltaContent choice \<noteq> []
                 then (case ProcessChunk formatter (DeltaContent choice) of
                         Inl p \<Rightarrow> Inl p
                       | Inr (formatter', printed) \<Rightarrow>
                           Inr (formatter', fullResponse @ DeltaContent choice))
                 else Inr (formatter, fullResponse)) of
             Inl p \<Rightarrow> Inl p
           | Inr (formatter', fullResponse') \<Rightarrow>
               (case (if length (DeltaToolCalls choice) > 0
                      then accumulateToolCalls toolCalls (DeltaToolCalls choice)
                      else Inr toolCalls) of
                  Inl p \<Rightarrow> Inl p
                | Inr toolCalls' \<Rightarrow> receiveLoop rest formatter' fullResponse' toolCalls')))"

text \<open>The receive loop of the second stream, which reads text only.\<close>

fun receiveFollowUp ::
  "ChatCompletionStreamResponse list \<Rightarrow> MatrixTextStreamFormatter \<Rightarrow> string \<Rightarrow>
   panic + MatrixTextStreamFormatter \<times> string" where
  "receiveFollowUp [] formatter finalNaturalResponse = Inr (formatter, finalNaturalResponse)"
| "receiveFollowUp (response # rest) formatter finalNaturalResponse =
     (case response of
        [] \<Rightarrow> receiveFollowUp rest formatter finalNaturalResponse
      | choice # _ \<Rightarrow>
          if DeltaContent choice \<noteq> []
          then (case ProcessChunk formatter (DeltaContent choice) of
                  Inl p \<Rightarrow> Inl p
                | Inr (formatter', printed) \<Rightarrow>
                    receiveFollowUp rest formatter' (finalNaturalResponse @ DeltaContent choice))
          else receiveFollowUp rest formatter finalNaturalResponse)"

definition textMessage :: "string \<Rightarrow> string \<Rightarrow> ChatCompletionMessage" where
  "textMessage role text =
     \<lparr>Role = role, Content = Text text, ToolName = [], ToolCalls = [], ToolCallID = []\<rparr>"

text \<open>What follows the first stream when it requested tools: the assistant message
  carrying the calls, their execution, and the second request.\<close>

definition toolRoundTrip ::
  "client \<Rightarrow> json_parser \<Rightarrow> history \<Rightarrow> filesystem \<Rightarrow> MatrixTextStreamFormatter \<Rightarrow> string \<Rightarrow>
   ToolCall list \<Rightarrow> panic + history \<times> filesystem" where
  "toolRoundTrip cl parse h fs formatter fullResponse toolCalls =
     (let assistantMsgWithTools =
            \<lparr>Role = ChatMessageRoleAssistant, Content = Text [], ToolName = [],
             ToolCalls = toolCalls, ToolCallID = []\<rparr>;
          h = (if fullResponse = [] then h @ [assistantMsgWithTools]
               else if length h > 0 \<and> Role (last h) = ChatMessageRoleAssistant
                 then h @ [assistantMsgWithTools]
               else if fullResponse = [] then h @ [assistantMsgWithTools]
               else h)
      in case executeToolCalls parse fs toolCalls [] of
           (toolResponses, fs') \<Rightarrow>
             (let h = h @ toolResponses;
                  toolResponseReq =
                    \<lparr>Model = ''deepseek-coder'', Messages = h, Tools = [], ToolChoice = [],
                     Stream = True, MaxTokens = 1000\<rparr>
              in case cl toolResponseReq of
                   Inl err \<Rightarrow> Inr (h, fs')
                 | Inr (responses, ending) \<Rightarrow>
                     (case receiveFollowUp responses formatter [] of
                        Inl p \<Rightarrow> Inl p
                      | Inr (formatter', finalNaturalResponse) \<Rightarrow>
                          (case Finalize formatter' of
                             Inl p \<Rightarrow> Inl p
                           | Inr (formatter'', printed) \<Rightarrow>
                               Inr (if finalNaturalResponse \<noteq> []
                                    then h @ [textMessage ChatMessageRoleAssistant finalNaturalResponse]
                                    else h, fs')))))"

text \<open>
  \<open>StreamAIResponse\<close>, on the two things it changes: the conversation history and the
  file system. \<open>Inl\<close> is a panic, which ends the program.
\<close>

definition StreamAIResponse ::
  "client \<Rightarrow> json_parser \<Rightarrow> history \<times> filesystem \<Rightarrow> string \<Rightarrow> panic + history \<times> filesystem" where
  "StreamAIResponse cl parse state userMessage =
     (case state of
        (h0, fs) \<Rightarrow>
          (let h = trimConversationHistory h0;
               h = (if h = [] then [textMessage ChatMessageRoleSystem systemPrompt] else h);
               h = h @ [textMessage ChatMessageRoleUser userMessage];
               req = \<lparr>Model = ''deepseek-coder'', Messages = h, Tools = tools,
                      ToolChoice = ''auto'', Stream = True, MaxTokens = 4000\<rparr>
           in case cl req of
                Inl err \<Rightarrow> Inr (take (length h - 1) h, fs)
              | Inr (responses, ending) \<Rightarrow>
                  (case receiveLoop responses NewMatrixTextStreamFormatter [] [] of
                     Inl p \<Rightarrow> Inl p
                   | Inr (formatter, fullResponse, toolCalls) \<Rightarrow>
                       (let h = (if fullResponse \<noteq> []
                                 then h @ [textMessage ChatMessageRoleAssistant fullResponse]
                                 else h)
                        in case Finalize formatter of
                             Inl p \<Rightarrow> Inl p
                           | Inr (formatter', printed) \<Rightarrow>
                               if length toolCalls > 0
                               then toolRoundTrip cl parse h fs formatter' fullResponse toolCalls
                               else Inr (h, fs)))))"

section \<open>Directory ingestion\<close>

subsection \<open>The directory tree and package filepath\<close>

text \<open>
  What \<open>filepath.WalkDir\<close> sees of the file system is a tree: an entry that is not a
  directory, with its name and what \<open>Info\<close> answers for it (its size, or an error), or a
  directory with its name, the entries \<open>os.ReadDir\<close> lists and the error \<open>ReadDir\<close> may
  return with them. The contents of the files are read by path from the file system of
  the file primitives; the tree and that file system are two parameters, so a file that
  is listed and cannot be read any more is part of the model.
\<close>

datatype dirtree =
    FileEntry string "os_error + nat"
  | DirEntry string "dirtree list" "os_error option"

fun entryName :: "dirtree \<Rightarrow> string" where
  "entryName (FileEntry n i) = n"
| "entryName (DirEntry n es e) = n"

fun entryIsDir :: "dirtree \<Rightarrow> bool" where
  "entryIsDir (FileEntry n i) = False"
| "entryIsDir (DirEntry n es e) = True"

text \<open>\<open>filepath.Join\<close> of a path and a name, \<open>filepath.Rel\<close> of a path under a base
  and \<open>filepath.Ext\<close>, without the cleaning of paths the library adds.\<close>

definition filepath_Join :: "string \<Rightarrow> string \<Rightarrow> string" where
  "filepath_Join dir n = dir @ ''/'' @ n"

definition filepath_Rel :: "string \<Rightarrow> string \<Rightarrow> unit + string" where
  "filepath_Rel basepath targpath =
     (if targpath = basepath then Inr ''.''
      else if strings_HasPrefix targpath (basepath @ ''/'')
        then Inr (drop (length basepath + 1) targpath)
      else Inl ())"

definition filepath_Ext :: "string \<Rightarrow> string" where
  "filepath_Ext p =
     (case dropWhile (\<lambda>c. c \<noteq> CHR ''.'' \<and> c \<noteq> CHR ''/'') (rev p) of
        [] \<Rightarrow> []
      | c # before \<Rightarrow>
          if c = CHR ''.''
          then c # rev (takeWhile (\<lambda>c. c \<noteq> CHR ''.'' \<and> c \<noteq> CHR ''/'') (rev p))
          else [])"

text \<open>
  \<open>WalkDir\<close> calls a function on every entry; the function returns \<open>nil\<close>
  (\<open>None\<close>), \<open>SkipDir\<close>, \<open>SkipAll\<close> or another error. It is given the path, the entry
  (\<open>nil\<close> when the root could not be examined) and the error of the walk, if any.
\<close>

datatype walk_error = SkipDir | SkipAll | WalkFailure error

type_synonym 's walkDirFunc =
  "'s \<Rightarrow> string \<Rightarrow> dirtree option \<Rightarrow> os_error option \<Rightarrow> 's \<times> walk_error option"

fun walkDir :: "'s walkDirFunc \<Rightarrow> 's \<Rightarrow> string \<Rightarrow> dirtree \<Rightarrow> 's \<times> walk_error option"
  and walkEntries :: "'s walkDirFunc \<Rightarrow> 's \<Rightarrow> string \<Rightarrow> dirtree list \<Rightarrow> 's \<times> walk_error option" where
  "walkDir fn st path (FileEntry n i) = fn st path (Some (FileEntry n i)) None"
| "walkDir fn st path (DirEntry n entries readErr) =
     (case fn st path (Some (DirEntry n entries readErr)) None of
        (st1, Some err) \<Rightarrow> (st1, if err = SkipDir then None else Some err)
      | (st1, None) \<Rightarrow>
          (case (case readErr of
                   None \<Rightarrow> (st1, None)
                 | Some e \<Rightarrow> fn st1 path (Some (DirEntry n entries readErr)) (Some e)) of
             (st2, Some err) \<Rightarrow> (st2, if err = SkipDir then None else Some err)
           | (st2, None) \<Rightarrow> walkEntries fn st2 path entries))"
| "walkEntries fn st path [] = (st, None)"
| "walkEntries fn st path (d1 # rest) =
     (case walkDir fn st (filepath_Join path (entryName d1)) d1 of
        (st', Some err) \<Rightarrow> (st', if err = SkipDir then None else Some err)
      | (st', None) \<Rightarrow> walkEntries fn st' path rest)"

text \<open>\<open>lstat\<close> answers for the root: an error, or the tree under it.\<close>

definition filepath_WalkDir ::
  "(string \<Rightarrow> os_error + dirtree) \<Rightarrow> string \<Rightarrow> 's walkDirFunc \<Rightarrow> 's \<Rightarrow> 's \<times> error option" where
  "filepath_WalkDir lstat root fn st =
     (case (case lstat root of
              Inl err \<Rightarrow> fn st root None (Some err)
            | Inr d \<Rightarrow> walkDir fn st root d) of
        (st', None) \<Rightarrow> (st', None)
      | (st', Some SkipDir) \<Rightarrow> (st', None)
      | (st', Some SkipAll) \<Rightarrow> (st', None)
      | (st', Some (WalkFailure e)) \<Rightarrow> (st', Some e))"

subsection \<open>The scan\<close>

definition excludedFiles :: "string list" where
  "excludedFiles =
     [''.DS_Store'', ''Thumbs.db'', ''.gitignore'', ''.python-version'', ''uv.lock'',
      ''.uv'', ''uvenv'', ''.uvenv'', ''.venv'', ''venv'', ''__pycache__'',
      ''.pytest_cache'', ''.coverage'', ''.mypy_cache'', ''node_modules'',
      ''package-lock.json'', ''yarn.lock'', ''pnpm-lock.yaml'', ''.next'', ''.nuxt'',
      ''dist'', ''build'', ''.cache'', ''.parcel-cache'', ''.turbo'', ''.vercel'',
      ''.output'', ''.contentlayer'', ''out'', ''coverage'', ''.nyc_output'',
      ''storybook-static'', ''.env'', ''.env.local'', ''.env.development'',
      ''.env.production'', ''.git'', ''.svn'', ''.hg'', ''CVS'', ''go.sum'']"

definition excludedExtensions :: "string list" where
  "excludedExtensions =
     [''.png'', ''.jpg'', ''.jpeg'', ''.gif'', ''.ico'', ''.svg'', ''.webp'', ''.avif'',
      ''.mp4'', ''.webm'', ''.mov'', ''.mp3'', ''.wav'', ''.ogg'', ''.zip'', ''.tar'',
      ''.gz'', ''.7z'', ''.rar'', ''.exe'', ''.dll'', ''.so'', ''.dylib'', ''.bin'',
      ''.pdf'', ''.doc'', ''.docx'', ''.xls'', ''.xlsx'', ''.ppt'', ''.pptx'', ''.pyc'',
      ''.pyo'', ''.pyd'', ''.egg'', ''.whl'', ''.uv'', ''.uvenv'', ''.db'', ''.sqlite'',
      ''.sqlite3'', ''.log'', ''.idea'', ''.vscode'', ''.map'', ''.chunk.js'',
      ''.chunk.css'', ''.min.js'', ''.min.css'', ''.bundle.js'', ''.bundle.css'',
      ''.cache'', ''.tmp'', ''.temp'', ''.ttf'', ''.otf'', ''.woff'', ''.woff2'', ''.eot'']"

text \<open>
  A skip record is the path and the reason the program writes behind it in
  parentheses. The three variables the walk function closes over are the fields of
  \<open>scan\<close>; \<open>addedFileContents\<close> is a Go map, which has no order.
\<close>

datatype skip_reason =
    WalkError os_error
  | HiddenDirectory
  | ExcludedDirectoryName
  | HiddenFile
  | ExcludedFileName
  | ExcludedExtension
  | StatError os_error
  | ExceedsSize nat nat
  | BinaryCheckError error
  | BinaryFile
  | ReadError error

record scan =
  addedFileContents :: "string \<rightharpoonup> string"
  skippedFilePaths :: "(string \<times> skip_reason) list"
  filesProcessed :: nat

definition maxTotalFiles :: nat where
  "maxTotalFiles = 1000"

definition skip :: "scan \<Rightarrow> string \<Rightarrow> skip_reason \<Rightarrow> scan" where
  "skip st path reason = st\<lparr>skippedFilePaths := skippedFilePaths st @ [(path, reason)]\<rparr>"

text \<open>The function literal passed to \<open>WalkDir\<close>. \<open>WalkDir\<close> never calls it with
  neither an entry nor an error.\<close>

definition walkFn :: "filesystem \<Rightarrow> string \<Rightarrow> scan walkDirFunc" where
  "walkFn fs normalizedDirRoot st path entry errWalk =
     (case errWalk of
        Some e \<Rightarrow> (skip st path (WalkError e), None)
      | None \<Rightarrow>
          if filesProcessed st \<ge> maxTotalFiles then (st, Some SkipDir)
          else (case entry of
                  None \<Rightarrow> (st, None)
                | Some (DirEntry baseName entries readErr) \<Rightarrow>
                    if strings_HasPrefix baseName ''.'' \<and> baseName \<noteq> ''.'' \<and> baseName \<noteq> ''..''
                      then (skip st path HiddenDirectory, Some SkipDir)
                    else if baseName \<in> set excludedFiles
                      then (skip st path ExcludedDirectoryName, Some SkipDir)
                    else (st, None)
                | Some (FileEntry baseName info) \<Rightarrow>
                    if strings_HasPrefix baseName ''.'' then (skip st path HiddenFile, None)
                    else if baseName \<in> set excludedFiles then (skip st path ExcludedFileName, None)
                    else if strings_ToLower (filepath_Ext baseName) \<in> set excludedExtensions
                      then (skip st path ExcludedExtension, None)
                    else (case info of
                            Inl err \<Rightarrow> (skip st path (StatError err), None)
                          | Inr sz \<Rightarrow>
                              if sz > maxFileSize
                                then (skip st path (ExceedsSize sz maxFileSize), None)
                              else (case isBinaryFile fs path of
                                      Inl err \<Rightarrow> (skip st path (BinaryCheckError err), None)
                                    | Inr isBin \<Rightarrow>
                                        if isBin then (skip st path BinaryFile, None)
                                        else (case readLocalFile fs path of
                                                Inl err \<Rightarrow> (skip st path (ReadError err), None)
                                              | Inr content \<Rightarrow>
                                                  (let relativePath =
                                                         (case filepath_Rel normalizedDirRoot path of
                                                            Inr r \<Rightarrow> r
                                                          | Inl relErr \<Rightarrow> path)
                                                   in (st\<lparr>addedFileContents :=
                                                            (addedFileContents st)(relativePath \<mapsto> content),
                                                          filesProcessed := filesProcessed st + 1\<rparr>,
                                                       None)))))))"

definition addDirectoryToConversationHelper ::
  "filesystem \<Rightarrow> (string \<Rightarrow> os_error + dirtree) \<Rightarrow> string \<Rightarrow>
   (string \<rightharpoonup> string) \<times> (string \<times> skip_reason) list \<times> error option" where
  "addDirectoryToConversationHelper fs lstat directoryPath =
     (case normalizePath directoryPath of
        Inl err \<Rightarrow> (Map.empty, [], Some (AddDirectoryError err))
      | Inr normalizedDirRoot \<Rightarrow>
          (case filepath_WalkDir lstat normalizedDirRoot (walkFn fs normalizedDirRoot)
                  \<lparr>addedFileContents = Map.empty, skippedFilePaths = [], filesProcessed = 0\<rparr> of
             (st, Some err) \<Rightarrow>
               (addedFileContents st, skippedFilePaths st, Some (ErrorWalking directoryPath err))
           | (st, None) \<Rightarrow> (addedFileContents st, skippedFilePaths st, None)))"




chapter \<open>Properties\<close>

section \<open>Instances of a snippet\<close>

lemma strings_Index_bound:
  "strings_Index s substr = Some i \<Longrightarrow> i + length substr \<le> length s"
proof (induction s arbitrary: i)
  case Nil
  then show ?case by (simp split: if_splits)
next
  case (Cons c s)
  show ?case
  proof (cases "strings_HasPrefix (c # s) substr")
    case True
    then have "length (take (length substr) (c # s)) = length substr"
      unfolding strings_HasPrefix_def by simp
    then have "length substr \<le> length (c # s)"
      by simp
    with True Cons.prems show ?thesis by simp
  next
    case False
    with Cons.prems obtain j where "strings_Index s substr = Some j" "i = Suc j"
      by auto
    with Cons.IH show ?thesis by fastforce
  qed
qed

lemma all_le_Suc_split: "(\<forall>i\<le>Suc n. P i) \<longleftrightarrow> P 0 \<and> (\<forall>i\<le>n. P (Suc i))"
proof
  assume "\<forall>i\<le>Suc n. P i"
  then show "P 0 \<and> (\<forall>i\<le>n. P (Suc i))" by simp
next
  assume h: "P 0 \<and> (\<forall>i\<le>n. P (Suc i))"
  show "\<forall>i\<le>Suc n. P i"
  proof (intro allI impI)
    fix i assume "i \<le> Suc n"
    with h show "P i" by (cases i) auto
  qed
qed

lemma strings_Index_None_iff:
  "strings_Index s substr = None \<longleftrightarrow> (\<forall>i\<le>length s. \<not> strings_HasPrefix (drop i s) substr)"
proof (induction s)
  case Nil
  show ?case by (auto simp: strings_HasPrefix_def)
next
  case (Cons c s)
  have "(\<forall>i\<le>length (c # s). \<not> strings_HasPrefix (drop i (c # s)) substr) \<longleftrightarrow>
        \<not> strings_HasPrefix (c # s) substr \<and> (\<forall>i\<le>length s. \<not> strings_HasPrefix (drop i s) substr)"
    by (simp add: all_le_Suc_split)
  with Cons.IH show ?case by auto
qed

lemma count_loop_acc: "count_loop s substr n = n + count_loop s substr 0"
proof (induction "length s" arbitrary: s n rule: less_induct)
  case less
  show ?case
  proof (cases "substr = []")
    case True then show ?thesis by (simp add: count_loop.simps)
  next
    case False
    show ?thesis
    proof (cases "strings_Index s substr")
      case None
      with False show ?thesis by (simp add: count_loop.simps)
    next
      case (Some i)
      let ?r = "drop (i + length substr) s"
      have a: "count_loop s substr n = count_loop ?r substr (Suc n)"
        using False Some by (subst count_loop.simps) simp
      have b: "count_loop s substr 0 = count_loop ?r substr (Suc 0)"
        using False Some by (subst count_loop.simps) simp
      from strings_Index_bound [OF Some] False have "length ?r < length s"
        by (cases substr) auto
      from less [OF this, of "Suc n"] less [OF this, of "Suc 0"] a b show ?thesis by simp
    qed
  qed
qed

lemma count_loop_zero_iff:
  assumes ne: "substr \<noteq> []"
  shows "count_loop s substr 0 = 0 \<longleftrightarrow> strings_Index s substr = None"
proof (cases "strings_Index s substr")
  case None
  have "count_loop s substr 0 = 0"
    using ne None by (subst count_loop.simps) simp
  with None show ?thesis by simp
next
  case (Some i)
  have "count_loop s substr 0 = count_loop (drop (i + length substr) s) substr (Suc 0)"
    using ne Some by (subst count_loop.simps) simp
  also have "\<dots> = Suc 0 + count_loop (drop (i + length substr) s) substr 0"
    by (rule count_loop_acc)
  finally show ?thesis using Some by simp
qed

lemma strings_Count_zero_iff:
  "strings_Count s substr = 0 \<longleftrightarrow> strings_Index s substr = None"
proof (cases "substr = []")
  case True
  then show ?thesis by (cases s) (simp_all add: strings_Count_def strings_HasPrefix_def)
next
  case False
  then show ?thesis by (simp add: strings_Count_def count_loop_zero_iff)
qed

lemma strings_Count_zero_occurrences:
  "strings_Count s substr = 0 \<longleftrightarrow> occurrences s substr = []"
  by (auto simp: strings_Count_zero_iff strings_Index_None_iff occurrences_def filter_empty_conv
      less_Suc_eq_le)

section \<open>Snippet edits\<close>

lemmas file_op_defs = applyDiffEdit_def normalizePath_def os_ReadFile_def lookup_def
  createOrOverwriteFile_def maxFileSize_def os_MkdirAll_def os_WriteFile_def readLocalFile_def
  os_Stat_def isBinaryFile_def




lemma strings_Index_Some_iff:
  "strings_Index s substr = Some i \<longleftrightarrow>
     i \<le> length s \<and> strings_HasPrefix (drop i s) substr \<and>
     (\<forall>j<i. \<not> strings_HasPrefix (drop j s) substr)"
proof (induction s arbitrary: i)
  case Nil
  show ?case by (auto simp: strings_HasPrefix_def)
next
  case (Cons c s)
  show ?case
  proof (cases "strings_HasPrefix (c # s) substr")
    case True
    then show ?thesis by (cases i) auto
  next
    case False
    show ?thesis
    proof (cases i)
      case 0
      with False show ?thesis by simp
    next
      case (Suc k)
      have "(\<forall>j<Suc k. \<not> strings_HasPrefix (drop j (c # s)) substr) \<longleftrightarrow>
            (\<forall>j<k. \<not> strings_HasPrefix (drop j s) substr)"
        using False by (auto simp: less_Suc_eq_0_disj)
      with False Suc Cons.IH [of k] show ?thesis by auto
    qed
  qed
qed

lemma occurrences_iff:
  "i \<in> set (occurrences s substr) \<longleftrightarrow> i \<le> length s \<and> strings_HasPrefix (drop i s) substr"
  by (auto simp: occurrences_def less_Suc_eq_le simp del: upt_Suc)

lemma distinct_occurrences: "distinct (occurrences s substr)"
  by (simp add: occurrences_def)

lemma occurrence_behind:
  assumes "j \<in> set (occurrences (drop k s) substr)" and "k \<le> length s"
  shows "k + j \<in> set (occurrences s substr)"
  using assms by (auto simp: occurrences_iff add.commute)

lemma count_loop_step:
  assumes "substr \<noteq> []" and "strings_Index s substr = Some i"
  shows "count_loop s substr 0 = Suc (count_loop (drop (i + length substr) s) substr 0)"
proof -
  have "count_loop s substr 0 = count_loop (drop (i + length substr) s) substr (Suc 0)"
    using assms by (subst count_loop.simps) simp
  also have "\<dots> = Suc 0 + count_loop (drop (i + length substr) s) substr 0"
    by (rule count_loop_acc)
  finally show ?thesis by simp
qed

lemma one_occurrence_count:
  assumes "occurrences s substr = [i]"
  shows "strings_Count s substr = 1 \<and> strings_Index s substr = Some i"
proof (cases "substr = []")
  case True
  with assms have all: "[0..<Suc (length s)] = [i]"
    by (simp add: occurrences_def strings_HasPrefix_def del: upt_Suc)
  then have "length [0..<Suc (length s)] = length [i]"
    by (rule arg_cong)
  then have s: "s = []" by simp
  from all have "[0..<Suc 0] = [i]"
    unfolding s by simp
  then have "i = 0"
    by simp
  with s True show ?thesis
    by (simp add: strings_Count_def)
next
  case False
  from assms have in_i: "i \<in> set (occurrences s substr)" by simp
  have only: "j = i" if "j \<in> set (occurrences s substr)" for j
    using that assms by simp
  have idx: "strings_Index s substr = Some i"
    unfolding strings_Index_Some_iff
  proof (intro conjI allI impI)
    from in_i show "i \<le> length s" "strings_HasPrefix (drop i s) substr"
      by (simp_all add: occurrences_iff)
  next
    fix j assume j: "j < i"
    show "\<not> strings_HasPrefix (drop j s) substr"
    proof
      assume "strings_HasPrefix (drop j s) substr"
      moreover from j in_i have "j \<le> length s" by (simp add: occurrences_iff)
      ultimately have "j \<in> set (occurrences s substr)" by (simp add: occurrences_iff)
      from only [OF this] j show False by simp
    qed
  qed
  let ?k = "i + length substr"
  from strings_Index_bound [OF idx] have k: "?k \<le> length s" .
  have "occurrences (drop ?k s) substr = []"
  proof (rule ccontr)
    assume "occurrences (drop ?k s) substr \<noteq> []"
    then obtain j where "j \<in> set (occurrences (drop ?k s) substr)"
      by (cases "occurrences (drop ?k s) substr") auto
    from occurrence_behind [OF this k] have "?k + j \<in> set (occurrences s substr)" .
    from only [OF this] False show False by simp
  qed
  then have "count_loop (drop ?k s) substr 0 = 0"
    using False by (simp add: strings_Count_zero_occurrences [symmetric] strings_Count_def)
  with count_loop_step [OF False idx] have "count_loop s substr 0 = 1"
    by simp
  with False idx show ?thesis
    by (simp add: strings_Count_def)
qed

lemma one_occurrence_replace:
  assumes "occurrences s substr = [i]"
  shows "strings_Replace1 s substr new = take i s @ new @ drop (i + length substr) s"
proof -
  from one_occurrence_count [OF assms]
  have c: "strings_Count s substr = 1" and idx: "strings_Index s substr = Some i"
    by simp_all
  from idx have "strings_HasPrefix (drop i s) substr"
    by (simp add: strings_Index_Some_iff)
  then have "take (length substr) (drop i s) = substr"
    by (simp add: strings_HasPrefix_def)
  then have "take i s @ substr @ drop (i + length substr) s = s"
    by (metis append_take_drop_id drop_drop add.commute)
  then have "s = take i s @ substr @ drop (i + length substr) s"
    by (rule sym)
  with c idx show ?thesis
    by (auto simp: strings_Replace1_def)
qed

lemma two_occurrences:
  assumes "1 < strings_Count s substr"
  shows "1 < length (occurrences s substr)"
proof -
  have two: "1 < length xs" if "a \<in> set xs" "b \<in> set xs" "a \<noteq> b" for a b :: nat and xs
    using that by (cases xs; cases "tl xs") auto
  show ?thesis
  proof (cases "substr = []")
    case True
    with assms have "s \<noteq> []"
      by (cases s) (simp_all add: strings_Count_def)
    then have "0 \<in> set (occurrences s substr)" "length s \<in> set (occurrences s substr)" "0 \<noteq> length s"
      using True by (simp_all add: occurrences_iff strings_HasPrefix_def)
    then show ?thesis by (rule two)
  next
    case False
    with assms have c: "1 < count_loop s substr 0"
      by (simp add: strings_Count_def)
    then have "strings_Index s substr \<noteq> None"
      using count_loop_zero_iff [OF False, of s] by auto
    then obtain i where idx: "strings_Index s substr = Some i" by auto
    let ?k = "i + length substr"
    from strings_Index_bound [OF idx] have k: "?k \<le> length s" .
    from c count_loop_step [OF False idx] have "count_loop (drop ?k s) substr 0 \<noteq> 0"
      by simp
    then have "occurrences (drop ?k s) substr \<noteq> []"
      using False by (simp add: strings_Count_zero_occurrences [symmetric] strings_Count_def)
    then obtain j where "j \<in> set (occurrences (drop ?k s) substr)"
      by (cases "occurrences (drop ?k s) substr") auto
    from occurrence_behind [OF this k] have b: "?k + j \<in> set (occurrences s substr)" .
    from idx have a: "i \<in> set (occurrences s substr)"
      by (simp add: strings_Index_Some_iff occurrences_iff)
    from False have "i \<noteq> ?k + j" by simp
    with a b show ?thesis by (rule two)
  qed
qed

text \<open>
  What \<open>applyDiffEdit\<close> does on a file it can read, by the instances of the snippet:
  none is a not-found error, exactly one is the edit handed to
  \<open>createOrOverwriteFile\<close>, and a count above one, which implies at least two
  instances, is an ambiguous-edit error; both errors leave the file system as it is.
\<close>

lemma applyDiffEdit_by_occurrences:
  assumes "path \<noteq> ''error''" and "os_ReadFile fs path = Inr content"
  shows "occurrences content orig = [] \<Longrightarrow>
           applyDiffEdit fs path orig new = (Some (SnippetNotFound path), fs)"
    and "occurrences content orig = [i] \<Longrightarrow>
           applyDiffEdit fs path orig new =
             (case createOrOverwriteFile fs path
                     (take i content @ new @ drop (i + length orig) content) of
                (Some err, fs') \<Rightarrow> (Some (FailedToWriteUpdated path err), fs')
              | (None, fs') \<Rightarrow> (None, fs'))"
    and "1 < strings_Count content orig \<Longrightarrow>
           1 < length (occurrences content orig) \<and>
           applyDiffEdit fs path orig new =
             (Some (AmbiguousEdit (strings_Count content orig) path), fs)"
proof -
  show "applyDiffEdit fs path orig new = (Some (SnippetNotFound path), fs)"
    if "occurrences content orig = []"
    using assms that
    by (simp add: applyDiffEdit_def normalizePath_def strings_Count_zero_occurrences)
  show "applyDiffEdit fs path orig new =
             (case createOrOverwriteFile fs path
                     (take i content @ new @ drop (i + length orig) content) of
                (Some err, fs') \<Rightarrow> (Some (FailedToWriteUpdated path err), fs')
              | (None, fs') \<Rightarrow> (None, fs'))"
    if "occurrences content orig = [i]"
    using assms one_occurrence_count [OF that] one_occurrence_replace [OF that, of new]
    by (simp add: applyDiffEdit_def normalizePath_def)
  show "1 < length (occurrences content orig) \<and>
           applyDiffEdit fs path orig new =
             (Some (AmbiguousEdit (strings_Count content orig) path), fs)"
    if "1 < strings_Count content orig"
    using assms that two_occurrences [OF that]
    by (simp add: applyDiffEdit_def normalizePath_def)
qed

text \<open>
  C2, evaluated where the claim fails. The file \<open>f.txt\<close> holds \<open>aaa\<close>, in which the
  snippet \<open>aa\<close> occurs twice as an exact substring (at offsets 0 and 1). The claim
  promises an ambiguous-edit error and no write; \<open>strings.Count\<close> counts only
  non-overlapping instances, finds one, and the edit is carried out at offset 0.
\<close>

theorem applyDiffEdit_overlapping_snippet:
  "occurrences ''aaa'' ''aa'' = [0, 1] \<and>
   strings_Count ''aaa'' ''aa'' = 1 \<and>
   applyDiffEdit [''f.txt'' \<mapsto> File ''aaa''] ''f.txt'' ''aa'' ''b'' =
     (None, [''f.txt'' \<mapsto> File ''aaa'', ''.'' \<mapsto> Dir, ''f.txt'' \<mapsto> File ''ba''])"
proof -
  have o: "occurrences ''aaa'' ''aa'' = [0, 1]" by code_simp
  have c: "strings_Count ''aaa'' ''aa'' = 1" by code_simp
  have r: "strings_Replace1 ''aaa'' ''aa'' ''b'' = ''ba''" by code_simp
  have d: "filepath_Dir ''f.txt'' = ''.''" by code_simp
  show ?thesis
    by (simp add: o c r d file_op_defs)
qed




section \<open>History trimming\<close>

lemma splitMessages_filter:
  "splitMessages h systemMessages otherMessages =
     (systemMessages @ filter (\<lambda>m. Role m = ChatMessageRoleSystem) h,
      otherMessages @ filter (\<lambda>m. Role m \<noteq> ChatMessageRoleSystem) h)"
  by (induction h arbitrary: systemMessages otherMessages) auto

lemma trimConversationHistory_unchanged:
  assumes "length (filter (\<lambda>m. Role m \<noteq> ChatMessageRoleSystem) h) \<le> 20"
  shows "trimConversationHistory h = h"
  using assms
  by (simp add: trimConversationHistory_def splitMessages_filter minMessagesToTrim_def)

lemma trimConversationHistory_trimmed:
  assumes "20 < length (filter (\<lambda>m. Role m \<noteq> ChatMessageRoleSystem) h)"
  shows "trimConversationHistory h =
           filter (\<lambda>m. Role m = ChatMessageRoleSystem) h @
           drop (length (filter (\<lambda>m. Role m \<noteq> ChatMessageRoleSystem) h) - 15)
             (filter (\<lambda>m. Role m \<noteq> ChatMessageRoleSystem) h)"
proof -
  let ?n = "length (filter (\<lambda>m. Role m \<noteq> ChatMessageRoleSystem) h)"
  have "nat (int ?n - 15) = ?n - 15" by simp
  with assms show ?thesis
    by (simp add: trimConversationHistory_def splitMessages_filter minMessagesToTrim_def
        maxMessagesToKeep_def Let_def)
qed

text \<open>
  C3 as the claim states it: in every case the system messages come before the retained
  other messages after trimming. With no more than 20 other messages the history is
  returned as it is, so a system message that follows a user message (as the ones the
  add-path command appends do) stays behind it.
\<close>

theorem trimConversationHistory_counterexample:
  "trimConversationHistory
     [\<lparr>Role = ''user'', Content = Text ''hello'', ToolName = [], ToolCalls = [], ToolCallID = []\<rparr>,
      \<lparr>Role = ''system'', Content = Text ''context'', ToolName = [], ToolCalls = [], ToolCallID = []\<rparr>]
   = [\<lparr>Role = ''user'', Content = Text ''hello'', ToolName = [], ToolCalls = [], ToolCallID = []\<rparr>,
      \<lparr>Role = ''system'', Content = Text ''context'', ToolName = [], ToolCalls = [], ToolCallID = []\<rparr>] \<and>
   trimConversationHistory
     [\<lparr>Role = ''user'', Content = Text ''hello'', ToolName = [], ToolCalls = [], ToolCallID = []\<rparr>,
      \<lparr>Role = ''system'', Content = Text ''context'', ToolName = [], ToolCalls = [], ToolCallID = []\<rparr>]
   \<noteq> [\<lparr>Role = ''system'', Content = Text ''context'', ToolName = [], ToolCalls = [], ToolCallID = []\<rparr>,
      \<lparr>Role = ''user'', Content = Text ''hello'', ToolName = [], ToolCalls = [], ToolCallID = []\<rparr>]"
  by (simp add: trimConversationHistory_def ChatMessageRoleSystem_def minMessagesToTrim_def)

text \<open>
  C3, amended. With \<open>N\<close> other messages, trimming leaves \<open>min N 15\<close> of them when
  \<open>N > 20\<close> and all \<open>N\<close> otherwise, and the system messages afterwards are the ones
  before, in their order. When \<open>N > 20\<close> the history is rebuilt as the system messages
  followed by the last 15 other messages; otherwise it is not touched.
\<close>

theorem trimConversationHistory_spec:
  fixes h :: history
  defines "system \<equiv> (\<lambda>m. Role m = ChatMessageRoleSystem)"
  defines "N \<equiv> length (filter (\<lambda>m. \<not> system m) h)"
  shows "filter system (trimConversationHistory h) = filter system h \<and>
         length (filter (\<lambda>m. \<not> system m) (trimConversationHistory h)) = (if N > 20 then min N 15 else N) \<and>
         trimConversationHistory h =
           (if N > 20 then filter system h @ drop (N - 15) (filter (\<lambda>m. \<not> system m) h) else h)"
proof (cases "N > 20")
  case True
  then have t: "trimConversationHistory h =
      filter system h @ drop (N - 15) (filter (\<lambda>m. \<not> system m) h)"
    unfolding N_def system_def by (rule trimConversationHistory_trimmed)
  have "filter system (drop (N - 15) (filter (\<lambda>m. \<not> system m) h)) = []"
    by (auto simp: filter_empty_conv dest: in_set_dropD)
  moreover have "filter (\<lambda>m. \<not> system m) (drop (N - 15) (filter (\<lambda>m. \<not> system m) h)) =
      drop (N - 15) (filter (\<lambda>m. \<not> system m) h)"
    by (auto simp: filter_id_conv dest: in_set_dropD)
  ultimately show ?thesis
    using True t by (simp add: N_def)
next
  case False
  then have "trimConversationHistory h = h"
    unfolding N_def system_def by (intro trimConversationHistory_unchanged) simp
  with False show ?thesis by (simp add: N_def)
qed

section \<open>Merging tool-call fragments\<close>





















section \<open>Numbered items of the formatter\<close>










section \<open>Stream failures\<close>

lemma trimConversationHistory_short:
  assumes "length h \<le> 20"
  shows "trimConversationHistory h = h"
proof (rule trimConversationHistory_unchanged)
  have "length (filter (\<lambda>m. Role m \<noteq> ChatMessageRoleSystem) h) \<le> length h"
    by (rule length_filter_le)
  with assms show "length (filter (\<lambda>m. Role m \<noteq> ChatMessageRoleSystem) h) \<le> 20"
    by linarith
qed

text \<open>
  What the turn does when the stream does not open: the user message is taken off
  again, and the history is the one the turn had trimmed and seeded.
\<close>

lemma StreamAIResponse_open_failure:
  fixes cl :: client
  defines "seeded h0 \<equiv> (if trimConversationHistory h0 = []
                           then [textMessage ChatMessageRoleSystem systemPrompt]
                           else trimConversationHistory h0)"
  assumes "cl \<lparr>Model = ''deepseek-coder'',
               Messages = seeded h0 @ [textMessage ChatMessageRoleUser userMessage],
               Tools = tools, ToolChoice = ''auto'', Stream = True, MaxTokens = 4000\<rparr> = Inl err"
  shows "StreamAIResponse cl parse (h0, fs) userMessage = Inr (seeded h0, fs)"
  using assms(2) unfolding seeded_def
  by (simp add: StreamAIResponse_def Let_def)

text \<open>
  C4, evaluated where the claim fails. The history holds the system prompt, the user
  says \<open>hi\<close>, the stream opens, delivers the text \<open>Hello\<close> and then fails with a
  receive error. The claim promises the history the turn started with; the receive
  loop leaves on the error as it does on the end of the stream, and the turn ends with
  the user message and the partial reply in the history. The same happens when the
  stream fails before it has delivered anything.
\<close>

theorem StreamAIResponse_receive_error:
  "StreamAIResponse
     (\<lambda>req. Inr ([[\<lparr>DeltaContent = ''Hello'', DeltaToolCalls = []\<rparr>]], RecvError ''connection reset''))
     (\<lambda>text. None)
     ([textMessage ChatMessageRoleSystem systemPrompt], Map.empty) ''hi'' =
   Inr ([textMessage ChatMessageRoleSystem systemPrompt,
         textMessage ChatMessageRoleUser ''hi'',
         textMessage ChatMessageRoleAssistant ''Hello''], Map.empty) \<and>
   StreamAIResponse
     (\<lambda>req. Inr ([], RecvError ''connection reset''))
     (\<lambda>text. None)
     ([textMessage ChatMessageRoleSystem systemPrompt], Map.empty) ''hi'' =
   Inr ([textMessage ChatMessageRoleSystem systemPrompt,
         textMessage ChatMessageRoleUser ''hi''], Map.empty)"
proof -
  have t: "trimConversationHistory [textMessage ChatMessageRoleSystem systemPrompt] =
      [textMessage ChatMessageRoleSystem systemPrompt]"
    by (rule trimConversationHistory_short) simp
  have p: "ProcessChunk NewMatrixTextStreamFormatter ''Hello'' =
      Inr (\<lparr>buffer = ''Hello'', inCodeBlock = False, codeLanguage = []\<rparr>, [])"
    by code_simp
  have f: "Finalize \<lparr>buffer = ''Hello'', inCodeBlock = False, codeLanguage = []\<rparr> =
      Inr (NewMatrixTextStreamFormatter, [PlainText ''Hello''])"
    by code_simp
  have f0: "Finalize NewMatrixTextStreamFormatter = Inr (NewMatrixTextStreamFormatter, [])"
    by code_simp
  show ?thesis
    by (simp add: StreamAIResponse_def t p f f0 Let_def)
qed

section \<open>Tool dispatch\<close>



text \<open>
  The struct tags of \<open>FileToCreate\<close> and \<open>FileToEdit\<close> name the path \<open>path\<close>,
  the schema offered to the model names it \<open>file_path\<close>. A \<open>create_file\<close> call
  that follows the schema is therefore decoded with an empty path, and the write
  primitive fails on it.
\<close>

lemma create_file_schema_arguments:
  "executeToolCall
     (\<lambda>text. Some (JObject [(''file_path'', JString ''foo.txt''), (''content'', JString ''X'')]))
     Map.empty
     \<lparr>Index = None, ID = ''call_1'', Type = ''function'',
      Function = \<lparr>Name = ''create_file'',
        Arguments = ''{\"file_path\":\"foo.txt\",\"content\":\"X\"}''\<rparr>\<rparr> =
   (ErrorCreatingFile [] (FailedToWrite [] (OsError ENOENT)), [''.'' \<mapsto> Dir])"
proof -
  have d: "filepath_Dir [] = ''.''" by code_simp
  have l: "strings_ToLower ''path'' \<noteq> strings_ToLower ''file_path''"
    "strings_ToLower ''content'' \<noteq> strings_ToLower ''file_path''"
    by code_simp+
  have u: "unmarshalFileToCreate
      (\<lambda>text. Some (JObject [(''file_path'', JString ''foo.txt''), (''content'', JString ''X'')]))
      ''{\"file_path\":\"foo.txt\",\"content\":\"X\"}'' = Inr \<lparr>CreatePath = [], CreateContent = ''X''\<rparr>"
    by (simp add: unmarshalFileToCreate_def json_Unmarshal_def findField_def l)
  show ?thesis
    by (simp add: executeToolCall_def u d file_op_defs)
qed




section \<open>Directory scan\<close>





















section \<open>The path named error\<close>

text \<open>
  C10. Every file operation that takes a path fails on the path \<open>error\<close>, whatever
  the file system holds, and leaves the file system as it is; for every other path the
  normalization returns the path itself.
\<close>

theorem normalizePath_error_path:
  "readLocalFile fs ''error'' = Inl (ReadLocalFileError TestError) \<and>
   createOrOverwriteFile fs ''error'' content = (Some (CreateOrOverwriteFileError TestError), fs) \<and>
   applyDiffEdit fs ''error'' originalSnippet newSnippet = (Some (ApplyDiffEditError TestError), fs) \<and>
   isBinaryFile fs ''error'' = Inl (IsBinaryFileError TestError) \<and>
   addDirectoryToConversationHelper fs lstat ''error'' =
     (Map.empty, [], Some (AddDirectoryError TestError)) \<and>
   normalizePath ''error'' = Inl TestError \<and>
   (\<forall>pathStr. pathStr \<noteq> ''error'' \<longrightarrow> normalizePath pathStr = Inr pathStr)"
  by (simp add: readLocalFile_def createOrOverwriteFile_def applyDiffEdit_def isBinaryFile_def
      addDirectoryToConversationHelper_def normalizePath_def)

theorem normalizePath_error_path_witness:
  "''notes/error'' \<noteq> ''error'' \<and> normalizePath ''notes/error'' = Inr ''notes/error''"
proof -
  have a: "''notes/error'' \<noteq> ''error''"
    by simp
  have "\<forall>pathStr. pathStr \<noteq> ''error'' \<longrightarrow> normalizePath pathStr = Inr pathStr"
    using normalizePath_error_path [of Map.empty "[]" "[]" "[]" "\<lambda>path. Inl ENOENT"]
    by (elim conjE)
  then have "''notes/error'' \<noteq> ''error'' \<longrightarrow> normalizePath ''notes/error'' = Inr ''notes/error''"
    by (rule spec)
  with a have "normalizePath ''notes/error'' = Inr ''notes/error''"
    by (rule rev_mp)
  with a show ?thesis
    by (rule conjI)
qed

end
